theory Spec2Isabelle
  imports Main "HOL-Library.Char_ord" "HOL-Library.List_Lexorder"
begin

section \<open>Shared vocabulary: identifiers, errors, the store\<close>

text \<open>
  Document identifiers are compared through \<^verbatim>\<open>toString()\<close> everywhere in the
  services, so an identifier is modelled by its string. Identifiers are opaque tokens:
  every non-empty string stands for a well-formed identifier (24 hexadecimal digits in
  the store at hand). The empty string is no identifier; the services meet it where
  they test an identifier for truthiness.
\<close>

type_synonym oid = string

text \<open>
  \<^verbatim>\<open>utils/ApiError.js\<close>: an error carries its HTTP status code and a message; the
  static constructors fix the code. \<open>TypeError\<close> is what reading a property of
  \<^verbatim>\<open>null\<close> raises, \<open>DuplicateKeyError\<close> what the store raises on a unique index,
  \<open>StoreError\<close> stands for a rejected write of the store, \<open>SyntaxError\<close> is
  what \<^verbatim>\<open>new RegExp\<close> raises on a pattern it does not accept, and \<open>CastError\<close> is
  what the store's driver raises on a value that does not cast to the type of its
  field.
\<close>

datatype error =
  ApiError nat string | TypeError | DuplicateKeyError | StoreError | SyntaxError | CastError

definition badRequest :: "string \<Rightarrow> error" where
  "badRequest message = ApiError 400 message"

definition forbidden :: "string \<Rightarrow> error" where
  "forbidden message = ApiError 403 message"

definition notFound :: "string \<Rightarrow> error" where
  "notFound message = ApiError 404 message"

definition conflict :: "string \<Rightarrow> error" where
  "conflict message = ApiError 409 message"

fun statusCode :: "error \<Rightarrow> nat option" where
  "statusCode (ApiError c m) = Some c"
| "statusCode e = None"

section \<open>Project model (Project.model.js)\<close>

datatype project_role = ROwner | RAdmin | RMember | RViewer

datatype visibility = Private | Public

datatype project_status = PActive | PArchived | PCompleted

record projectMember =
  pm_user :: oid
  pm_role :: project_role
  pm_joinedAt :: nat

record project =
  p_id :: oid
  p_name :: string
  p_description :: string
  p_key :: string
  p_owner :: oid
  p_members :: "projectMember list"
  p_status :: project_status
  p_visibility :: visibility
  p_taskCount :: int
  p_completedTaskCount :: int
  p_updatedAt :: nat

definition isMember :: "project \<Rightarrow> oid \<Rightarrow> bool" where
  "isMember p userId =
     (p_owner p = userId \<or> list_ex (\<lambda>m. pm_user m = userId) (p_members p))"

definition getMemberRole :: "project \<Rightarrow> oid \<Rightarrow> project_role option" where
  "getMemberRole p userId =
     (if p_owner p = userId then Some ROwner
      else case find (\<lambda>m. pm_user m = userId) (p_members p) of
             Some member \<Rightarrow> Some (pm_role member)
           | None \<Rightarrow> None)"

section \<open>Activity model (Activity.model.js)\<close>

text \<open>
  The \<open>changes\<close> snapshot is kept as two association lists from field name to
  value (\<open>None\<close> for \<^verbatim>\<open>null\<close> or \<^verbatim>\<open>undefined\<close>); \<open>metadata\<close> likewise.
\<close>

record activity =
  a_action :: string
  a_actor :: oid
  a_entityType :: string
  a_entityId :: oid
  a_project :: "oid option"
  a_before :: "(string \<times> string option) list"
  a_after :: "(string \<times> string option) list"
  a_metadata :: "(string \<times> string option) list"

section \<open>User model (User.model.js)\<close>

datatype system_role = SAdmin | SMember | SViewer

record user =
  u_id :: oid
  u_email :: string
  u_firstName :: string
  u_lastName :: string
  u_role :: system_role
  u_isActive :: bool

section \<open>Task model (Task.model.js)\<close>

datatype task_status = Backlog | Todo | InProgress | InReview | Done | Cancelled

datatype task_priority = Low | Medium | High | Urgent

record task =
  t_id :: oid
  t_title :: string
  t_description :: string
  t_taskNumber :: "string option"
  t_project :: oid
  t_assignee :: "oid option"
  t_reporter :: oid
  t_status :: task_status
  t_priority :: task_priority
  t_parentTask :: "oid option"
  t_completedAt :: "nat option"
  t_updatedAt :: nat

section \<open>Comment model\<close>

record comment =
  c_id :: oid
  c_content :: string
  c_task :: oid
  c_author :: oid
  c_isDeleted :: bool
  c_createdAt :: nat

section \<open>The store\<close>

text \<open>
  One collection per model, in insertion order. \<open>findById\<close> returns the first
  document with the identifier, as the store's unique \<^verbatim>\<open>_id\<close> makes it the only one.
  The records above keep the fields that the modelled operations read or write; the
  other fields of the schemas (settings, dates, labels, hours, credentials) and the
  validators of the text fields are left out. The schemas set \<^verbatim>\<open>timestamps: true\<close>, so
  every write of a project or task sets its \<open>updatedAt\<close> to the current time, which
  the operations receive as \<open>now\<close>.
\<close>

record db =
  users :: "user list"
  projects :: "project list"
  tasks :: "task list"
  comments :: "comment list"
  activities :: "activity list"

fun updateFirst :: "('a \<Rightarrow> bool) \<Rightarrow> ('a \<Rightarrow> 'a) \<Rightarrow> 'a list \<Rightarrow> 'a list" where
  "updateFirst P f [] = []"
| "updateFirst P f (x # xs) = (if P x then f x # xs else x # updateFirst P f xs)"

fun deleteFirst :: "('a \<Rightarrow> bool) \<Rightarrow> 'a list \<Rightarrow> 'a list" where
  "deleteFirst P [] = []"
| "deleteFirst P (x # xs) = (if P x then xs else x # deleteFirst P xs)"

text \<open>
  \<^verbatim>\<open>Activity.log(data)\<close> is \<^verbatim>\<open>this.create(data)\<close>: it returns the promise of the
  insert. The flag says whether the store accepts the insert; a rejected insert
  rejects the promise.
\<close>

definition Activity_log :: "bool \<Rightarrow> activity \<Rightarrow> db \<Rightarrow> error + db" where
  "Activity_log accepted data d =
     (if accepted then Inr (d\<lparr>activities := activities d @ [data]\<rparr>) else Inl StoreError)"

section \<open>Project repository and service\<close>

definition Project_findById :: "oid \<Rightarrow> db \<Rightarrow> project option" where
  "Project_findById i d = find (\<lambda>p. p_id p = i) (projects d)"

record project_patch =
  pp_name :: "string option"
  pp_description :: "string option"
  pp_status :: "project_status option"
  pp_visibility :: "visibility option"

definition applyProjectPatch :: "nat \<Rightarrow> project_patch \<Rightarrow> project \<Rightarrow> project" where
  "applyProjectPatch now u p =
     p\<lparr>p_name := (case pp_name u of Some v \<Rightarrow> v | None \<Rightarrow> p_name p),
       p_description := (case pp_description u of Some v \<Rightarrow> v | None \<Rightarrow> p_description p),
       p_status := (case pp_status u of Some v \<Rightarrow> v | None \<Rightarrow> p_status p),
       p_visibility := (case pp_visibility u of Some v \<Rightarrow> v | None \<Rightarrow> p_visibility p),
       p_updatedAt := now\<rparr>"

definition Project_updateById :: "nat \<Rightarrow> oid \<Rightarrow> project_patch \<Rightarrow> db \<Rightarrow> db" where
  "Project_updateById now i u d =
     d\<lparr>projects := updateFirst (\<lambda>p. p_id p = i) (applyProjectPatch now u) (projects d)\<rparr>"

text \<open>\<^verbatim>\<open>$pull: { members: { user: userId } }\<close> removes every entry of that user.\<close>

definition Project_removeMember :: "nat \<Rightarrow> oid \<Rightarrow> oid \<Rightarrow> db \<Rightarrow> db" where
  "Project_removeMember now projectId userId d =
     d\<lparr>projects := updateFirst (\<lambda>p. p_id p = projectId)
          (\<lambda>p. p\<lparr>p_members := filter (\<lambda>m. pm_user m \<noteq> userId) (p_members p),
                 p_updatedAt := now\<rparr>)
          (projects d)\<rparr>"

text \<open>
  \<^verbatim>\<open>findOneAndUpdate({_id, 'members.user': userId}, {$set: {'members.$.role': newRole}})\<close>:
  the positional operator addresses the first matching entry.
\<close>

definition Project_updateMemberRole ::
  "nat \<Rightarrow> oid \<Rightarrow> oid \<Rightarrow> project_role \<Rightarrow> db \<Rightarrow> db" where
  "Project_updateMemberRole now projectId userId newRole d =
     d\<lparr>projects := updateFirst
          (\<lambda>p. p_id p = projectId \<and> list_ex (\<lambda>m. pm_user m = userId) (p_members p))
          (\<lambda>p. p\<lparr>p_members :=
                  updateFirst (\<lambda>m. pm_user m = userId) (\<lambda>m. m\<lparr>pm_role := newRole\<rparr>) (p_members p),
                 p_updatedAt := now\<rparr>)
          (projects d)\<rparr>"

fun roleName :: "project_role \<Rightarrow> string" where
  "roleName ROwner = ''owner''"
| "roleName RAdmin = ''admin''"
| "roleName RMember = ''member''"
| "roleName RViewer = ''viewer''"

fun visibilityName :: "visibility \<Rightarrow> string" where
  "visibilityName Private = ''private''"
| "visibilityName Public = ''public''"

fun projectStatusName :: "project_status \<Rightarrow> string" where
  "projectStatusName PActive = ''active''"
| "projectStatusName PArchived = ''archived''"
| "projectStatusName PCompleted = ''completed''"

text \<open>
  A service call returns its outcome together with the store it leaves behind: a
  write that happened before a later \<^verbatim>\<open>throw\<close> stays in the store.
\<close>

definition logAndReturn :: "bool \<Rightarrow> activity \<Rightarrow> 'a option \<Rightarrow> db \<Rightarrow> (error + 'a) \<times> db" where
  "logAndReturn accepted data res d =
     (case Activity_log accepted data d of
        Inl e \<Rightarrow> (Inl e, d)
      | Inr d' \<Rightarrow> (case res of None \<Rightarrow> (Inl TypeError, d') | Some r \<Rightarrow> (Inr r, d')))"

definition updateProject ::
  "bool \<Rightarrow> nat \<Rightarrow> oid \<Rightarrow> project_patch \<Rightarrow> oid \<Rightarrow> db \<Rightarrow> (error + project) \<times> db" where
  "updateProject accepted now projectId updateData userId d =
     (case Project_findById projectId d of
        None \<Rightarrow> (Inl (notFound ''Project not found''), d)
      | Some project \<Rightarrow>
          let memberRole = getMemberRole project userId in
          if p_owner project \<noteq> userId \<and> memberRole \<noteq> Some RAdmin
          then (Inl (forbidden ''Only project owner or admins can update the project''), d)
          else
            let d' = Project_updateById now projectId updateData d in
            logAndReturn accepted
              \<lparr>a_action = ''project.update'', a_actor = userId, a_entityType = ''project'',
               a_entityId = projectId, a_project = Some projectId,
               a_before = [(''name'', Some (p_name project)),
                           (''description'', Some (p_description project)),
                           (''status'', Some (projectStatusName (p_status project))),
                           (''visibility'', Some (visibilityName (p_visibility project)))],
               a_after = (case pp_name updateData of Some v \<Rightarrow> [(''name'', Some v)] | None \<Rightarrow> [])
                       @ (case pp_description updateData of
                            Some v \<Rightarrow> [(''description'', Some v)] | None \<Rightarrow> [])
                       @ (case pp_status updateData of
                            Some v \<Rightarrow> [(''status'', Some (projectStatusName v))] | None \<Rightarrow> [])
                       @ (case pp_visibility updateData of
                            Some v \<Rightarrow> [(''visibility'', Some (visibilityName v))] | None \<Rightarrow> []),
               a_metadata = []\<rparr>
              (Project_findById projectId d') d')"

definition removeMember ::
  "bool \<Rightarrow> nat \<Rightarrow> oid \<Rightarrow> oid \<Rightarrow> oid \<Rightarrow> db \<Rightarrow> (error + project) \<times> db" where
  "removeMember accepted now projectId memberId actorId d =
     (case Project_findById projectId d of
        None \<Rightarrow> (Inl (notFound ''Project not found''), d)
      | Some project \<Rightarrow>
          let actorRole = getMemberRole project actorId;
              isSelfRemoval = (actorId = memberId) in
          if \<not> isSelfRemoval \<and> p_owner project \<noteq> actorId \<and> actorRole \<noteq> Some RAdmin
          then (Inl (forbidden ''Only project owner or admins can remove members''), d)
          else if p_owner project = memberId
          then (Inl (badRequest ''Cannot remove the project owner''), d)
          else if \<not> isMember project memberId
          then (Inl (notFound ''User is not a member of this project''), d)
          else
            let d' = Project_removeMember now projectId memberId d in
            logAndReturn accepted
              \<lparr>a_action = ''project.member_remove'', a_actor = actorId,
               a_entityType = ''project'', a_entityId = projectId, a_project = Some projectId,
               a_before = [], a_after = [],
               a_metadata = [(''removedUserId'', Some memberId)]\<rparr>
              (Project_findById projectId d') d')"

definition updateMemberRole ::
  "bool \<Rightarrow> nat \<Rightarrow> oid \<Rightarrow> oid \<Rightarrow> project_role \<Rightarrow> oid \<Rightarrow> db
     \<Rightarrow> (error + project) \<times> db" where
  "updateMemberRole accepted now projectId memberId newRole actorId d =
     (case Project_findById projectId d of
        None \<Rightarrow> (Inl (notFound ''Project not found''), d)
      | Some project \<Rightarrow>
          if p_owner project \<noteq> actorId
          then (Inl (forbidden ''Only the project owner can change member roles''), d)
          else if p_owner project = memberId
          then (Inl (badRequest ''Cannot change the project owner's role''), d)
          else (case find (\<lambda>m. pm_user m = memberId) (p_members project) of
                  None \<Rightarrow> (Inl (notFound ''User is not a member of this project''), d)
                | Some member \<Rightarrow>
                    let beforeRole = pm_role member;
                        d' = Project_updateMemberRole now projectId memberId newRole d in
                    logAndReturn accepted
                      \<lparr>a_action = ''project.member_role_change'', a_actor = actorId,
                       a_entityType = ''project'', a_entityId = projectId,
                       a_project = Some projectId,
                       a_before = [(''role'', Some (roleName beforeRole))],
                       a_after = [(''role'', Some (roleName newRole))],
                       a_metadata = [(''memberId'', Some memberId)]\<rparr>
                      (Project_findById projectId d') d'))"

section \<open>User repository and service (user.service.js)\<close>

definition User_findById :: "oid \<Rightarrow> db \<Rightarrow> user option" where
  "User_findById i d = find (\<lambda>u. u_id u = i) (users d)"

definition User_updateById :: "oid \<Rightarrow> (user \<Rightarrow> user) \<Rightarrow> db \<Rightarrow> db" where
  "User_updateById i f d = d\<lparr>users := updateFirst (\<lambda>u. u_id u = i) f (users d)\<rparr>"

definition softDelete :: "oid \<Rightarrow> db \<Rightarrow> db" where
  "softDelete i d = User_updateById i (\<lambda>u. u\<lparr>u_isActive := False\<rparr>) d"

text \<open>
  \<^verbatim>\<open>countByRole\<close> groups the active users by role; a role no active user has gets no
  key in the resulting object, so reading it yields \<^verbatim>\<open>undefined\<close> (\<open>None\<close>).
\<close>

definition countByRole :: "db \<Rightarrow> system_role \<Rightarrow> nat option" where
  "countByRole d r =
     (let n = length (filter (\<lambda>u. u_isActive u \<and> u_role u = r) (users d))
      in if n = 0 then None else Some n)"

text \<open>\<^verbatim>\<open>x <= 1\<close> where \<^verbatim>\<open>x\<close> may be \<^verbatim>\<open>undefined\<close>: the comparison is then false.\<close>

fun lessEqual :: "nat option \<Rightarrow> nat \<Rightarrow> bool" where
  "lessEqual None k = False"
| "lessEqual (Some n) k = (n \<le> k)"

fun systemRoleName :: "system_role \<Rightarrow> string" where
  "systemRoleName SAdmin = ''admin''"
| "systemRoleName SMember = ''member''"
| "systemRoleName SViewer = ''viewer''"

definition updateRole ::
  "bool \<Rightarrow> oid \<Rightarrow> system_role \<Rightarrow> oid \<Rightarrow> db \<Rightarrow> (error + user) \<times> db" where
  "updateRole accepted userId newRole actorId d =
     (case User_findById userId d of
        None \<Rightarrow> (Inl (notFound ''User not found''), d)
      | Some usr \<Rightarrow>
          if u_role usr = SAdmin \<and> newRole \<noteq> SAdmin \<and> lessEqual (countByRole d SAdmin) 1
          then (Inl (badRequest ''Cannot demote the last admin user''), d)
          else
            let beforeRole = u_role usr;
                d' = User_updateById userId (\<lambda>u. u\<lparr>u_role := newRole\<rparr>) d in
            logAndReturn accepted
              \<lparr>a_action = ''user.role_change'', a_actor = actorId, a_entityType = ''user'',
               a_entityId = userId, a_project = None,
               a_before = [(''role'', Some (systemRoleName beforeRole))],
               a_after = [(''role'', Some (systemRoleName newRole))],
               a_metadata = []\<rparr>
              (User_findById userId d') d')"

definition deactivateUser :: "bool \<Rightarrow> oid \<Rightarrow> oid \<Rightarrow> db \<Rightarrow> (error + unit) \<times> db" where
  "deactivateUser accepted userId actorId d =
     (case User_findById userId d of
        None \<Rightarrow> (Inl (notFound ''User not found''), d)
      | Some usr \<Rightarrow>
          if u_role usr = SAdmin \<and> lessEqual (countByRole d SAdmin) 1
          then (Inl (badRequest ''Cannot deactivate the last admin user''), d)
          else
            let d' = softDelete userId d in
            logAndReturn accepted
              \<lparr>a_action = ''user.delete'', a_actor = actorId, a_entityType = ''user'',
               a_entityId = userId, a_project = None,
               a_before = [], a_after = [], a_metadata = []\<rparr>
              (Some ()) d')"

section \<open>Task hooks, repository and service\<close>

text \<open>Decimal rendering of a number inside a template literal.\<close>

definition digitChar :: "nat \<Rightarrow> char" where
  "digitChar k = ''0123456789'' ! k"

function showNat :: "nat \<Rightarrow> string" where
  "showNat n = (if n < 10 then [digitChar n] else showNat (n div 10) @ [digitChar (n mod 10)])"
  by pat_completeness auto
termination
  by (relation "measure id") auto

declare showNat.simps [simp del]

definition Task_findById :: "oid \<Rightarrow> db \<Rightarrow> task option" where
  "Task_findById i d = find (\<lambda>t. t_id t = i) (tasks d)"

text \<open>\<^verbatim>\<open>countDocuments({ project: this.project })\<close>\<close>

definition countDocuments :: "oid \<Rightarrow> db \<Rightarrow> nat" where
  "countDocuments projectId d = length (filter (\<lambda>t. t_project t = projectId) (tasks d))"

text \<open>A string that may be absent is truthy when it is present and non-empty.\<close>

fun truthy :: "string option \<Rightarrow> bool" where
  "truthy None = False"
| "truthy (Some s) = (s \<noteq> [])"

text \<open>
  The pre-save hook, first part (lines 167 to 180): a new document without a task
  number gets \<^verbatim>\<open>`${project.key}-${count + 1}`\<close>, and the project's task counter is
  incremented.
\<close>

definition generateTaskNumber :: "nat \<Rightarrow> bool \<Rightarrow> task \<Rightarrow> db \<Rightarrow> task \<times> db" where
  "generateTaskNumber now isNew this d =
     (if isNew \<and> \<not> truthy (t_taskNumber this) then
        (case Project_findById (t_project this) d of
           Some project \<Rightarrow>
             let count = countDocuments (t_project this) d in
             (this\<lparr>t_taskNumber := Some (p_key project @ ''-'' @ showNat (count + 1))\<rparr>,
              d\<lparr>projects := updateFirst (\<lambda>p. p_id p = t_project this)
                    (\<lambda>p. p\<lparr>p_taskCount := p_taskCount p + 1, p_updatedAt := now\<rparr>)
                    (projects d)\<rparr>)
         | None \<Rightarrow> (this, d))
      else (this, d))"

text \<open>
  The pre-save hook, second part (lines 183 to 189). \<open>statusModified\<close> is the value
  of \<^verbatim>\<open>this.isModified('status')\<close>, \<open>now\<close> the value of \<^verbatim>\<open>new Date()\<close>.
\<close>

definition trackCompletion :: "nat \<Rightarrow> bool \<Rightarrow> task \<Rightarrow> task" where
  "trackCompletion now statusModified this =
     (if statusModified then
        (if t_status this = Done \<and> t_completedAt this = None
         then this\<lparr>t_completedAt := Some now\<rparr>
         else if t_status this \<noteq> Done then this\<lparr>t_completedAt := None\<rparr>
         else this)
      else this)"

definition preSave :: "nat \<Rightarrow> bool \<Rightarrow> bool \<Rightarrow> task \<Rightarrow> db \<Rightarrow> task \<times> db" where
  "preSave now isNew statusModified this d =
     (case generateTaskNumber now isNew this d of
        (this', d') \<Rightarrow> (trackCompletion now statusModified this', d'))"

text \<open>
  \<^verbatim>\<open>Task.create\<close>: the hook runs, then the document is inserted. The schema declares
  \<^verbatim>\<open>taskNumber\<close> with \<^verbatim>\<open>unique: true\<close> (and the store keeps \<^verbatim>\<open>_id\<close> unique), so an
  insert whose number or identifier is already stored is refused; what the hook wrote
  to the project stays. The post-save recount of \<open>completedTaskCount\<close> is not
  modelled: that counter is carried unchanged.
\<close>

definition Task_create :: "nat \<Rightarrow> bool \<Rightarrow> task \<Rightarrow> db \<Rightarrow> (error + task) \<times> db" where
  "Task_create now statusModified doc d =
     (case preSave now True statusModified doc d of
        (doc', d') \<Rightarrow>
          if list_ex (\<lambda>t. t_taskNumber t = t_taskNumber doc' \<or> t_id t = t_id doc') (tasks d')
          then (Inl DuplicateKeyError, d')
          else (Inr doc', d'\<lparr>tasks := tasks d' @ [doc']\<rparr>))"

record task_data =
  td_projectId :: oid
  td_assigneeId :: "oid option"
  td_parentTaskId :: "oid option"
  td_title :: string
  td_description :: "string option"
  td_status :: "task_status option"
  td_priority :: "task_priority option"

text \<open>\<^verbatim>\<open>x || null\<close>\<close>

definition orNull :: "string option \<Rightarrow> string option" where
  "orNull x = (if truthy x then x else None)"

text \<open>
  \<open>newId\<close> is the identifier the driver generates for the new document;
  \<open>statusModified\<close> is passed on to the hook.
\<close>

definition createTask ::
  "bool \<Rightarrow> nat \<Rightarrow> oid \<Rightarrow> bool \<Rightarrow> task_data \<Rightarrow> oid \<Rightarrow> db \<Rightarrow> (error + task) \<times> db" where
  "createTask accepted now newId statusModified taskData reporterId d =
     (let projectId = td_projectId taskData in
      case Project_findById projectId d of
        None \<Rightarrow> (Inl (notFound ''Project not found''), d)
      | Some project \<Rightarrow>
          if \<not> isMember project reporterId \<and> p_visibility project \<noteq> Public
          then (Inl (forbidden ''You do not have access to this project''), d)
          else
            (case (case td_parentTaskId taskData of
                     None \<Rightarrow> None
                   | Some parentTaskId \<Rightarrow>
                       if parentTaskId = [] then None
                       else (case Task_findById parentTaskId d of
                               None \<Rightarrow> Some (notFound ''Parent task not found'')
                             | Some parentTask \<Rightarrow>
                                 if t_project parentTask \<noteq> projectId
                                 then Some (badRequest ''Parent task must be in the same project'')
                                 else None)) of
               Some e \<Rightarrow> (Inl e, d)
             | None \<Rightarrow>
                 (case Task_create now statusModified
                         \<lparr>t_id = newId, t_title = td_title taskData,
                          t_description = (case td_description taskData of
                                             Some s \<Rightarrow> s | None \<Rightarrow> []),
                          t_taskNumber = None, t_project = projectId,
                          t_assignee = orNull (td_assigneeId taskData),
                          t_reporter = reporterId,
                          t_status = (case td_status taskData of Some s \<Rightarrow> s | None \<Rightarrow> Todo),
                          t_priority = (case td_priority taskData of
                                          Some p \<Rightarrow> p | None \<Rightarrow> Medium),
                          t_parentTask = orNull (td_parentTaskId taskData),
                          t_completedAt = None, t_updatedAt = now\<rparr> d of
                    (Inl e, d') \<Rightarrow> (Inl e, d')
                  | (Inr tsk, d') \<Rightarrow>
                      logAndReturn accepted
                        \<lparr>a_action = ''task.create'', a_actor = reporterId,
                         a_entityType = ''task'', a_entityId = t_id tsk,
                         a_project = Some projectId, a_before = [], a_after = [],
                         a_metadata = [(''taskNumber'', t_taskNumber tsk),
                                       (''taskTitle'', Some (t_title tsk))]\<rparr>
                        (Task_findById (t_id tsk) d') d')))"

text \<open>The \<open>userId\<close> argument is received and not used.\<close>

definition getTaskById :: "oid \<Rightarrow> oid \<Rightarrow> db \<Rightarrow> error + task" where
  "getTaskById taskId userId d =
     (case Task_findById taskId d of
        None \<Rightarrow> Inl (notFound ''Task not found'')
      | Some tsk \<Rightarrow> Inr tsk)"

text \<open>
  The body of a task update. \<open>up_assigneeId\<close> distinguishes an absent key (\<open>None\<close>),
  \<^verbatim>\<open>null\<close> (\<open>Some None\<close>) and an identifier.
\<close>

record task_patch =
  up_title :: "string option"
  up_description :: "string option"
  up_status :: "task_status option"
  up_priority :: "task_priority option"
  up_assigneeId :: "oid option option"

fun statusName :: "task_status \<Rightarrow> string" where
  "statusName Backlog = ''backlog''"
| "statusName Todo = ''todo''"
| "statusName InProgress = ''in_progress''"
| "statusName InReview = ''in_review''"
| "statusName Done = ''done''"
| "statusName Cancelled = ''cancelled''"

fun priorityName :: "task_priority \<Rightarrow> string" where
  "priorityName Low = ''low''"
| "priorityName Medium = ''medium''"
| "priorityName High = ''high''"
| "priorityName Urgent = ''urgent''"

text \<open>
  Lines 137 to 158 of the task service: three \<^verbatim>\<open>if\<close> statements in a row, each
  overwriting \<^verbatim>\<open>actionType\<close> and extending \<^verbatim>\<open>changes\<close>. The triple is
  (\<open>actionType\<close>, \<open>changes.before\<close>, \<open>changes.after\<close>).
\<close>

type_synonym tagging = "string \<times> (string \<times> string option) list \<times> (string \<times> string option) list"

definition statusStep :: "task_patch \<Rightarrow> task \<Rightarrow> tagging \<Rightarrow> tagging" where
  "statusStep updateData tsk acc =
     (case acc of (actionType, before, after) \<Rightarrow>
        (case up_status updateData of
           Some s \<Rightarrow>
             if s \<noteq> t_status tsk
             then (''task.status_change'',
                   before @ [(''status'', Some (statusName (t_status tsk)))],
                   after @ [(''status'', Some (statusName s))])
             else acc
         | None \<Rightarrow> acc))"

definition assigneeStep :: "task_patch \<Rightarrow> task \<Rightarrow> tagging \<Rightarrow> tagging" where
  "assigneeStep updateData tsk acc =
     (case acc of (actionType, before, after) \<Rightarrow>
        (case up_assigneeId updateData of
           Some assigneeId \<Rightarrow>
             ((if truthy assigneeId \<and> t_assignee tsk = None then ''task.assign''
               else if \<not> truthy assigneeId \<and> t_assignee tsk \<noteq> None then ''task.unassign''
               else actionType),
              before @ [(''assignee'', t_assignee tsk)],
              after @ [(''assignee'', assigneeId)])
         | None \<Rightarrow> acc))"

definition priorityStep :: "task_patch \<Rightarrow> task \<Rightarrow> tagging \<Rightarrow> tagging" where
  "priorityStep updateData tsk acc =
     (case acc of (actionType, before, after) \<Rightarrow>
        (case up_priority updateData of
           Some p \<Rightarrow>
             if p \<noteq> t_priority tsk
             then (''task.priority_change'',
                   before @ [(''priority'', Some (priorityName (t_priority tsk)))],
                   after @ [(''priority'', Some (priorityName p))])
             else acc
         | None \<Rightarrow> acc))"

definition determineAction :: "task_patch \<Rightarrow> task \<Rightarrow> tagging" where
  "determineAction updateData tsk =
     priorityStep updateData tsk
       (assigneeStep updateData tsk
          (statusStep updateData tsk (''task.update'', [], [])))"

text \<open>
  \<^verbatim>\<open>Task.findByIdAndUpdate(id, updateData)\<close>, after the service has moved
  \<^verbatim>\<open>assigneeId\<close> to \<^verbatim>\<open>assignee\<close>. This is an update query, not a \<^verbatim>\<open>save\<close>: the
  hooks registered with \<^verbatim>\<open>pre('save')\<close> are not part of it. The query casts the
  update to the schema before anything is written: \<open>assignee\<close> is an ObjectId field,
  \<^verbatim>\<open>null\<close> and an identifier cast, the empty string does not, and the query then
  fails with a \<open>CastError\<close> and writes nothing.
\<close>

definition castsToObjectId :: "string \<Rightarrow> bool" where
  "castsToObjectId s = (s \<noteq> [])"

definition castUpdate :: "task_patch \<Rightarrow> error option" where
  "castUpdate u =
     (case up_assigneeId u of
        Some (Some s) \<Rightarrow> if castsToObjectId s then None else Some CastError
      | _ \<Rightarrow> None)"

definition applyTaskPatch :: "nat \<Rightarrow> task_patch \<Rightarrow> task \<Rightarrow> task" where
  "applyTaskPatch now u t =
     t\<lparr>t_title := (case up_title u of Some v \<Rightarrow> v | None \<Rightarrow> t_title t),
       t_description := (case up_description u of Some v \<Rightarrow> v | None \<Rightarrow> t_description t),
       t_status := (case up_status u of Some v \<Rightarrow> v | None \<Rightarrow> t_status t),
       t_priority := (case up_priority u of Some v \<Rightarrow> v | None \<Rightarrow> t_priority t),
       t_assignee := (case up_assigneeId u of Some v \<Rightarrow> v | None \<Rightarrow> t_assignee t),
       t_updatedAt := now\<rparr>"

definition Task_updateById :: "nat \<Rightarrow> oid \<Rightarrow> task_patch \<Rightarrow> db \<Rightarrow> error + db" where
  "Task_updateById now i u d =
     (case castUpdate u of
        Some e \<Rightarrow> Inl e
      | None \<Rightarrow>
          Inr (d\<lparr>tasks := updateFirst (\<lambda>t. t_id t = i) (applyTaskPatch now u) (tasks d)\<rparr>))"



definition Task_deleteById :: "oid \<Rightarrow> db \<Rightarrow> db" where
  "Task_deleteById i d = d\<lparr>tasks := deleteFirst (\<lambda>t. t_id t = i) (tasks d)\<rparr>"

text \<open>
  The task is loaded with its project populated; \<^verbatim>\<open>task.project._id\<close> is read only
  when the activity entry is built, after the update has been written, and raises a
  \<open>TypeError\<close> when the project document is gone. An update that the store refuses
  ends the call there, before any write and before the audit entry.
\<close>

definition updateTask ::
  "bool \<Rightarrow> nat \<Rightarrow> oid \<Rightarrow> task_patch \<Rightarrow> oid \<Rightarrow> db \<Rightarrow> (error + task) \<times> db" where
  "updateTask accepted now taskId updateData userId d =
     (case Task_findById taskId d of
        None \<Rightarrow> (Inl (notFound ''Task not found''), d)
      | Some tsk \<Rightarrow>
          (case determineAction updateData tsk of
             (actionType, before, after) \<Rightarrow>
               (case Task_updateById now taskId updateData d of
                  Inl e \<Rightarrow> (Inl e, d)
                | Inr d' \<Rightarrow>
                    (case Project_findById (t_project tsk) d of
                       None \<Rightarrow> (Inl TypeError, d')
                     | Some project \<Rightarrow>
                         logAndReturn accepted
                           \<lparr>a_action = actionType, a_actor = userId, a_entityType = ''task'',
                            a_entityId = taskId, a_project = Some (p_id project),
                            a_before = before, a_after = after,
                            a_metadata = [(''taskNumber'', t_taskNumber tsk),
                                          (''taskTitle'', Some (t_title tsk))]\<rparr>
                           (Task_findById taskId d') d'))))"

definition deleteTask :: "bool \<Rightarrow> nat \<Rightarrow> oid \<Rightarrow> oid \<Rightarrow> db \<Rightarrow> (error + unit) \<times> db" where
  "deleteTask accepted now taskId userId d =
     (case Task_findById taskId d of
        None \<Rightarrow> (Inl (notFound ''Task not found''), d)
      | Some tsk \<Rightarrow>
          let d' = Task_deleteById taskId d in
          (case Project_findById (t_project tsk) d of
             None \<Rightarrow> (Inl TypeError, d')
           | Some project \<Rightarrow>
               let d'' = d'\<lparr>projects := updateFirst (\<lambda>p. p_id p = p_id project)
                              (\<lambda>p. p\<lparr>p_taskCount := p_taskCount p - 1, p_updatedAt := now\<rparr>)
                              (projects d')\<rparr> in
               logAndReturn accepted
                 \<lparr>a_action = ''task.delete'', a_actor = userId, a_entityType = ''task'',
                  a_entityId = taskId, a_project = Some (p_id project),
                  a_before = [], a_after = [],
                  a_metadata = [(''taskNumber'', t_taskNumber tsk),
                                (''taskTitle'', Some (t_title tsk))]\<rparr>
                 (Some ()) d''))"

text \<open>
  The task routes: every route authenticates; only task creation (and the bulk
  update) adds \<^verbatim>\<open>authorizeMinRole(Roles.MEMBER)\<close>, from \<^verbatim>\<open>middleware/rbac.js\<close>.
\<close>

definition roleHierarchy :: "system_role list" where
  "roleHierarchy = [SViewer, SMember, SAdmin]"

fun indexOf :: "'a list \<Rightarrow> 'a \<Rightarrow> int" where
  "indexOf [] x = -1"
| "indexOf (y # ys) x = (if y = x then 0 else (let i = indexOf ys x in if i < 0 then -1 else i + 1))"

definition authorizeMinRole :: "system_role \<Rightarrow> system_role \<Rightarrow> error option" where
  "authorizeMinRole minimumRole userRole =
     (if indexOf roleHierarchy userRole < indexOf roleHierarchy minimumRole
      then Some (forbidden (''Access denied. Minimum required role: '' @ systemRoleName minimumRole))
      else None)"

section \<open>Search service (search.service.js)\<close>

text \<open>
  The service compiles the query with \<^verbatim>\<open>new RegExp(query, 'i')\<close> and hands the
  compiled expression to each branch. The regular-expression engine belongs to the
  platform, so the service is modelled over any engine \<open>RegExp_i\<close>: a function from
  the pattern to either the error it raises or the test the compiled expression
  performs on a string. A branch receives that test, as \<^verbatim>\<open>_searchTasks(searchRegex, limit)\<close>
  receives the expression. Field selection and population only shape the returned
  documents and are not modelled.
\<close>

type_synonym regexp = "string \<Rightarrow> bool"

text \<open>\<^verbatim>\<open>.limit(n)\<close>; the store reads a limit of zero as no limit.\<close>

definition limitDocs :: "nat \<Rightarrow> 'a list \<Rightarrow> 'a list" where
  "limitDocs n xs = (if n = 0 then xs else take n xs)"

fun testOpt :: "regexp \<Rightarrow> string option \<Rightarrow> bool" where
  "testOpt r None = False"
| "testOpt r (Some s) = r s"

definition searchTasks :: "regexp \<Rightarrow> nat \<Rightarrow> db \<Rightarrow> task list" where
  "searchTasks searchRegex limit d =
     limitDocs limit
       (sort_key (\<lambda>t. - int (t_updatedAt t))
          (filter (\<lambda>t. searchRegex (t_title t) \<or> searchRegex (t_description t)
                       \<or> testOpt searchRegex (t_taskNumber t))
             (tasks d)))"

definition searchProjects :: "regexp \<Rightarrow> nat \<Rightarrow> oid \<Rightarrow> db \<Rightarrow> project list" where
  "searchProjects searchRegex limit userId d =
     limitDocs limit
       (sort_key (\<lambda>p. - int (p_updatedAt p))
          (filter (\<lambda>p. (searchRegex (p_name p) \<or> searchRegex (p_description p)
                        \<or> searchRegex (p_key p))
                     \<and> (p_visibility p = Public \<or> p_owner p = userId
                        \<or> list_ex (\<lambda>m. pm_user m = userId) (p_members p)))
             (projects d)))"

definition searchUsers :: "regexp \<Rightarrow> nat \<Rightarrow> db \<Rightarrow> user list" where
  "searchUsers searchRegex limit d =
     limitDocs limit
       (sort_key u_firstName
          (filter (\<lambda>u. u_isActive u
                     \<and> (searchRegex (u_firstName u) \<or> searchRegex (u_lastName u)
                        \<or> searchRegex (u_email u)))
             (users d)))"

definition searchComments :: "regexp \<Rightarrow> nat \<Rightarrow> db \<Rightarrow> comment list" where
  "searchComments searchRegex limit d =
     limitDocs limit
       (sort_key (\<lambda>c. - int (c_createdAt c))
          (filter (\<lambda>c. searchRegex (c_content c) \<and> \<not> c_isDeleted c) (comments d)))"

record search_options =
  so_scope :: "string option"
  so_limit :: "nat option"

record search_results =
  sr_tasks :: "task list option"
  sr_projects :: "project list option"
  sr_users :: "user list option"
  sr_comments :: "comment list option"

record search_response =
  res_query :: string
  res_totalCount :: nat
  res_results :: search_results

fun lengthOpt :: "'a list option \<Rightarrow> nat" where
  "lengthOpt None = 0"
| "lengthOpt (Some xs) = length xs"

definition globalSearch ::
  "(string \<Rightarrow> error + regexp) \<Rightarrow> string \<Rightarrow> search_options \<Rightarrow> oid \<Rightarrow> db
     \<Rightarrow> error + search_response" where
  "globalSearch RegExp_i query options userId d =
     (let scope = (case so_scope options of None \<Rightarrow> ''all'' | Some s \<Rightarrow> s);
          limit = (case so_limit options of None \<Rightarrow> 10 | Some l \<Rightarrow> l) in
      case RegExp_i query of
        Inl e \<Rightarrow> Inl e
      | Inr searchRegex \<Rightarrow>
          let results =
                \<lparr>sr_tasks = (if scope = ''all'' \<or> scope = ''tasks''
                              then Some (searchTasks searchRegex limit d) else None),
                 sr_projects = (if scope = ''all'' \<or> scope = ''projects''
                                 then Some (searchProjects searchRegex limit userId d) else None),
                 sr_users = (if scope = ''all'' \<or> scope = ''users''
                              then Some (searchUsers searchRegex limit d) else None),
                 sr_comments = (if scope = ''all'' \<or> scope = ''comments''
                                 then Some (searchComments searchRegex limit d) else None)\<rparr>;
              totalCount = lengthOpt (sr_tasks results) + lengthOpt (sr_projects results)
                         + lengthOpt (sr_users results) + lengthOpt (sr_comments results)
          in Inr \<lparr>res_query = query, res_totalCount = totalCount, res_results = results\<rparr>)"

subsection \<open>A fragment of the platform's regular expressions\<close>

text \<open>
  To evaluate the search on concrete queries, the fragment of the pattern language
  made of literal characters, the wildcard \<^verbatim>\<open>.\<close>, alternation \<^verbatim>\<open>|\<close> and the postfix
  operators \<^verbatim>\<open>*\<close>, \<^verbatim>\<open>+\<close> and \<^verbatim>\<open>?\<close> is given its standard meaning, with the
  \<^verbatim>\<open>i\<close> flag folding the ASCII letters. A pattern outside the fragment is refused
  with \<open>SyntaxError\<close>: for a malformed pattern such as \<^verbatim>\<open>a++\<close> that is what the
  platform does; the other patterns are simply not covered by this engine.
\<close>

datatype rexp = Nul | Eps | Chr char | AnyChar | Seq rexp rexp | Alt rexp rexp | Star rexp

definition canonicalize :: "char \<Rightarrow> char" where
  "canonicalize c =
     (let n = (of_char c :: nat) in if 97 \<le> n \<and> n \<le> 122 then char_of (n - 32) else c)"

fun nullable :: "rexp \<Rightarrow> bool" where
  "nullable Nul = False"
| "nullable Eps = True"
| "nullable (Chr c) = False"
| "nullable AnyChar = False"
| "nullable (Seq r s) = (nullable r \<and> nullable s)"
| "nullable (Alt r s) = (nullable r \<or> nullable s)"
| "nullable (Star r) = True"

fun deriv :: "char \<Rightarrow> rexp \<Rightarrow> rexp" where
  "deriv a Nul = Nul"
| "deriv a Eps = Nul"
| "deriv a (Chr c) = (if canonicalize a = canonicalize c then Eps else Nul)"
| "deriv a AnyChar = (if a = CHR 0x0A then Nul else Eps)"
| "deriv a (Seq r s) =
     (if nullable r then Alt (Seq (deriv a r) s) (deriv a s) else Seq (deriv a r) s)"
| "deriv a (Alt r s) = Alt (deriv a r) (deriv a s)"
| "deriv a (Star r) = Seq (deriv a r) (Star r)"

text \<open>Does some prefix of the string match?\<close>

fun matchPrefix :: "rexp \<Rightarrow> string \<Rightarrow> bool" where
  "matchPrefix r [] = nullable r"
| "matchPrefix r (c # cs) = (nullable r \<or> matchPrefix (deriv c r) cs)"

text \<open>\<^verbatim>\<open>regex.test(s)\<close> without anchors: does the pattern match somewhere in the string?\<close>

fun rexpTest :: "rexp \<Rightarrow> string \<Rightarrow> bool" where
  "rexpTest r [] = nullable r"
| "rexpTest r (c # cs) = (matchPrefix r (c # cs) \<or> rexpTest r cs)"

definition metaChars :: "char list" where
  "metaChars = CHR 0x5C # ''^$.|?*+()[]{}''"

definition parseAtom :: "char \<Rightarrow> rexp option" where
  "parseAtom c =
     (if c = CHR ''.'' then Some AnyChar
      else if c \<in> set metaChars then None
      else Some (Chr c))"

fun parseSeq :: "string \<Rightarrow> rexp option" where
  "parseSeq [] = Some Eps"
| "parseSeq (c # cs) =
     (case parseAtom c of
        None \<Rightarrow> None
      | Some a \<Rightarrow>
          (case cs of
             [] \<Rightarrow> Some a
           | q # rest \<Rightarrow>
               if q = CHR ''*'' then map_option (Seq (Star a)) (parseSeq rest)
               else if q = CHR ''+'' then map_option (Seq (Seq a (Star a))) (parseSeq rest)
               else if q = CHR ''?'' then map_option (Seq (Alt a Eps)) (parseSeq rest)
               else map_option (Seq a) (parseSeq cs)))"

text \<open>The alternatives of a pattern: the pieces between the bars.\<close>

fun splitBar :: "string \<Rightarrow> string list" where
  "splitBar [] = [[]]"
| "splitBar (c # cs) =
     (case splitBar cs of
        [] \<Rightarrow> [[c]]
      | p # ps \<Rightarrow> if c = CHR ''|'' then [] # p # ps else (c # p) # ps)"

fun parseAlts :: "string list \<Rightarrow> rexp option" where
  "parseAlts [] = Some Nul"
| "parseAlts (p # ps) =
     (case parseSeq p of
        None \<Rightarrow> None
      | Some r \<Rightarrow> (case ps of [] \<Rightarrow> Some r | _ \<Rightarrow> map_option (Alt r) (parseAlts ps)))"

definition RegExp_fragment :: "string \<Rightarrow> error + regexp" where
  "RegExp_fragment pattern =
     (case parseAlts (splitBar pattern) of
        None \<Rightarrow> Inl SyntaxError
      | Some r \<Rightarrow> Inr (rexpTest r))"

subsection \<open>Literal matching, for comparison\<close>

text \<open>
  Case-insensitive substring matching as the specification words it: the text
  contains the query, letter case aside.
\<close>

fun prefixCI :: "string \<Rightarrow> string \<Rightarrow> bool" where
  "prefixCI [] s = True"
| "prefixCI (q # qs) [] = False"
| "prefixCI (q # qs) (c # cs) = (canonicalize q = canonicalize c \<and> prefixCI qs cs)"

fun containsCI :: "string \<Rightarrow> string \<Rightarrow> bool" where
  "containsCI q [] = (q = [])"
| "containsCI q (c # cs) = (prefixCI q (c # cs) \<or> containsCI q cs)"

definition literalEngine :: "string \<Rightarrow> error + regexp" where
  "literalEngine query = Inr (containsCI query)"

section \<open>Example data\<close>

text \<open>
  A private project with key \<^verbatim>\<open>ABC\<close>, owned by \<open>u1\<close>, with a project admin \<open>u2\<close> and
  a viewer \<open>u3\<close>; \<open>u9\<close> is a user with no role in it. Among the users, \<open>u1\<close> is the
  only active system admin (\<open>u4\<close> is an admin whose account is inactive).
\<close>

definition exProject :: project where
  "exProject =
     \<lparr>p_id = ''p1'', p_name = ''Alpha'', p_description = [], p_key = ''ABC'',
      p_owner = ''u1'',
      p_members = [\<lparr>pm_user = ''u2'', pm_role = RAdmin, pm_joinedAt = 0\<rparr>,
                   \<lparr>pm_user = ''u3'', pm_role = RViewer, pm_joinedAt = 0\<rparr>],
      p_status = PActive, p_visibility = Private, p_taskCount = 0,
      p_completedTaskCount = 0, p_updatedAt = 0\<rparr>"

definition exUser :: "oid \<Rightarrow> string \<Rightarrow> system_role \<Rightarrow> bool \<Rightarrow> user" where
  "exUser i n r a =
     \<lparr>u_id = i, u_email = n @ ''@example.com'', u_firstName = n, u_lastName = ''Doe'',
      u_role = r, u_isActive = a\<rparr>"

definition exUsers :: "user list" where
  "exUsers = [exUser ''u1'' ''ann'' SAdmin True, exUser ''u2'' ''bob'' SMember True,
              exUser ''u3'' ''cy'' SViewer True, exUser ''u4'' ''dan'' SAdmin False,
              exUser ''u9'' ''eve'' SMember True]"

definition exDb0 :: db where
  "exDb0 = \<lparr>users = exUsers, projects = [exProject], tasks = [], comments = [],
            activities = []\<rparr>"

definition exTaskData :: "string \<Rightarrow> task_data" where
  "exTaskData title =
     \<lparr>td_projectId = ''p1'', td_assigneeId = None, td_parentTaskId = None,
      td_title = title, td_description = None, td_status = None, td_priority = None\<rparr>"

text \<open>Three tasks created one after the other by the owner, then the second deleted.\<close>

definition exDb1 :: db where
  "exDb1 = snd (createTask True 1 ''t1'' False (exTaskData ''Fix auth flow'') ''u1'' exDb0)"

definition exDb2 :: db where
  "exDb2 = snd (createTask True 2 ''t2'' False (exTaskData ''Write docs'') ''u1'' exDb1)"

definition exDb3 :: db where
  "exDb3 = snd (createTask True 3 ''t3'' False (exTaskData ''c+d'') ''u1'' exDb2)"

definition exDb4 :: db where
  "exDb4 = snd (deleteTask True 4 ''t2'' ''u1'' exDb3)"

text \<open>
  The store after the three creations with a fourth task created in status \<open>done\<close>
  at time 5, and the store after the three creations with \<open>t1\<close> assigned to \<open>u2\<close>.
\<close>

definition exDbDone :: db where
  "exDbDone =
     snd (createTask True 5 ''t4'' True ((exTaskData ''Ship it'')\<lparr>td_status := Some Done\<rparr>)
            ''u1'' exDb3)"

definition exDbAssigned :: db where
  "exDbAssigned =
     snd (updateTask True 6 ''t1''
            \<lparr>up_title = None, up_description = None, up_status = None, up_priority = None,
             up_assigneeId = Some (Some ''u2'')\<rparr> ''u1'' exDb3)"

definition exPatch :: task_patch where
  "exPatch = \<lparr>up_title = None, up_description = None, up_status = None,
              up_priority = None, up_assigneeId = None\<rparr>"

text \<open>The titles of the tasks a search returned.\<close>

definition foundTitles :: "error + search_response \<Rightarrow> string list option" where
  "foundTitles r =
     (case r of
        Inl e \<Rightarrow> None
      | Inr res \<Rightarrow> map_option (map t_title) (sr_tasks (res_results res)))"

text \<open>Does the compiled query match one of the three searched fields of the task?\<close>

definition queryMatches :: "(string \<Rightarrow> error + regexp) \<Rightarrow> string \<Rightarrow> task \<Rightarrow> bool" where
  "queryMatches RegExp_i query t =
     (case RegExp_i query of
        Inl e \<Rightarrow> False
      | Inr r \<Rightarrow> r (t_title t) \<or> r (t_description t) \<or> testOpt r (t_taskNumber t))"

definition tasksOnly :: search_options where
  "tasksOnly = \<lparr>so_scope = Some ''tasks'', so_limit = Some 10\<rparr>"

text \<open>The first of the three tasks, as stored.\<close>

definition exTask :: task where
  "exTask =
     \<lparr>t_id = ''t1'', t_title = ''Fix auth flow'', t_description = [],
      t_taskNumber = Some ''ABC-1'', t_project = ''p1'', t_assignee = None,
      t_reporter = ''u1'', t_status = Todo, t_priority = Medium, t_parentTask = None,
      t_completedAt = None, t_updatedAt = 1\<rparr>"

text \<open>The same store with \<open>u4\<close> reactivated: two active system admins.\<close>

definition exDbTwoAdmins :: db where
  "exDbTwoAdmins =
     exDb0\<lparr>users := [exUser ''u1'' ''ann'' SAdmin True, exUser ''u2'' ''bob'' SMember True,
                      exUser ''u4'' ''dan'' SAdmin True]\<rparr>"

text \<open>Did the call return normally?\<close>

fun succeeds :: "error + 'a \<Rightarrow> bool" where
  "succeeds (Inl e) = False"
| "succeeds (Inr v) = True"

section \<open>Auxiliary facts about the store\<close>

lemmas ex_defs =
  exDbDone_def exDbAssigned_def
  exDb4_def exDb3_def exDb2_def exDb1_def exDb0_def exDbTwoAdmins_def exProject_def
  exUsers_def exUser_def exTaskData_def exPatch_def tasksOnly_def

lemma find_updateFirst:
  "(\<And>x. P (f x) = P x) \<Longrightarrow> find P (updateFirst P f xs) = map_option f (find P xs)"
  by (induction xs) auto

lemma count_updateFirst:
  "find P xs = Some x \<Longrightarrow> Q x \<Longrightarrow> \<not> Q (f x) \<Longrightarrow>
     Suc (length (filter Q (updateFirst P f xs))) = length (filter Q xs)"
  by (induction xs) (auto split: if_splits)

lemma find_Some_set: "find P xs = Some x \<Longrightarrow> x \<in> set xs \<and> P x"
  by (induction xs) (auto split: if_splits)

lemma logAndReturn_True:
  "logAndReturn True a (Some r) d = (Inr r, d\<lparr>activities := activities d @ [a]\<rparr>)"
  by (simp add: logAndReturn_def Activity_log_def)

lemma logAndReturn_False: "logAndReturn False a r d = (Inl StoreError, d)"
  by (simp add: logAndReturn_def Activity_log_def)

lemma logAndReturn_snd:
  "snd (logAndReturn True a r d) = d\<lparr>activities := activities d @ [a]\<rparr>"
  by (cases r) (auto simp: logAndReturn_def Activity_log_def)

lemma countByRole_Some:
  "countByRole d r = Some n \<longleftrightarrow>
     n \<noteq> 0 \<and> length (filter (\<lambda>u. u_isActive u \<and> u_role u = r) (users d)) = n"
  by (auto simp: countByRole_def Let_def)

section \<open>Role resolution\<close>

text \<open>
  Claim C7, as stated: \<open>getMemberRole\<close> returns "owner" if and only if the user is the
  project's owner. The member-role enumeration of the schema contains "owner" too, so
  the "only if" direction fails: for a project owned by \<open>u1\<close> whose member entry for
  \<open>u2\<close> stores the role "owner", the resolved role of \<open>u2\<close> is "owner".
\<close>

theorem getMemberRole_owner_iff_counterexample:
  "getMemberRole
     (exProject\<lparr>p_members := [\<lparr>pm_user = ''u2'', pm_role = ROwner, pm_joinedAt = 0\<rparr>]\<rparr>) ''u2''
     = Some ROwner
   \<and> ''u2'' \<noteq> p_owner
        (exProject\<lparr>p_members := [\<lparr>pm_user = ''u2'', pm_role = ROwner, pm_joinedAt = 0\<rparr>]\<rparr>)"
  unfolding ex_defs by code_simp

text \<open>
  Claim C7, amended: \<open>getMemberRole\<close> returns "owner" when the user is the project's
  owner; otherwise it returns exactly the role stored in the first member entry of
  that user (which can itself be "owner"), and null exactly when the user is neither
  the owner nor listed in the members. Hence the result is "owner" if and only if the
  user is the owner or the user's member entry stores the role "owner".
\<close>

theorem getMemberRole_resolution:
  "getMemberRole P U =
     (if U = p_owner P then Some ROwner
      else map_option pm_role (find (\<lambda>m. pm_user m = U) (p_members P)))
   \<and> (getMemberRole P U = None
        \<longleftrightarrow> U \<noteq> p_owner P \<and> U \<notin> pm_user ` set (p_members P))
   \<and> (getMemberRole P U = Some ROwner
        \<longleftrightarrow> U = p_owner P
            \<or> (\<exists>m. find (\<lambda>m. pm_user m = U) (p_members P) = Some m \<and> pm_role m = ROwner))"
proof (intro conjI)
  show "getMemberRole P U =
     (if U = p_owner P then Some ROwner
      else map_option pm_role (find (\<lambda>m. pm_user m = U) (p_members P)))"
    by (auto simp: getMemberRole_def split: option.splits)
next
  show "getMemberRole P U = None
        \<longleftrightarrow> U \<noteq> p_owner P \<and> U \<notin> pm_user ` set (p_members P)"
    by (auto simp: getMemberRole_def find_None_iff image_iff split: option.splits
             dest: find_Some_set)
next
  show "getMemberRole P U = Some ROwner
        \<longleftrightarrow> U = p_owner P
            \<or> (\<exists>m. find (\<lambda>m. pm_user m = U) (p_members P) = Some m \<and> pm_role m = ROwner)"
    by (auto simp: getMemberRole_def split: option.splits)
qed

theorem getMemberRole_resolution_witness:
  "getMemberRole exProject ''u1'' = Some ROwner
   \<and> getMemberRole exProject ''u3'' = Some RViewer
   \<and> getMemberRole exProject ''u9'' = None"
proof -
  have m: "p_owner exProject = ''u1''"
          "find (\<lambda>m. pm_user m = ''u3'') (p_members exProject)
             = Some \<lparr>pm_user = ''u3'', pm_role = RViewer, pm_joinedAt = 0\<rparr>"
          "find (\<lambda>m. pm_user m = ''u9'') (p_members exProject) = None"
    by (simp_all add: exProject_def)
  show ?thesis
    using getMemberRole_resolution [of exProject "''u1''"]
          getMemberRole_resolution [of exProject "''u3''"]
          getMemberRole_resolution [of exProject "''u9''"]
    by (simp add: m)
qed

section \<open>Owner protections\<close>

text \<open>
  Claim C6, as stated: for every actor, removing the owner or changing the owner's
  role fails with a BadRequest error. The permission gate comes first in both
  methods: the viewer \<open>u3\<close> who tries to remove the owner \<open>u1\<close>, and the project
  admin \<open>u2\<close> who tries to change the owner's role, get Forbidden (403).
\<close>

theorem owner_protection_counterexample:
  "getMemberRole exProject ''u3'' = Some RViewer
   \<and> p_owner exProject = ''u1''
   \<and> removeMember True 9 ''p1'' ''u1'' ''u3'' exDb0
       = (Inl (ApiError 403 ''Only project owner or admins can remove members''), exDb0)
   \<and> updateMemberRole True 9 ''p1'' ''u1'' RMember ''u2'' exDb0
       = (Inl (ApiError 403 ''Only the project owner can change member roles''), exDb0)"
  unfolding ex_defs by code_simp

text \<open>
  Claim C6, amended: for every actor, removing the owner of an existing project
  through \<open>removeMember\<close> and changing the owner's role through \<open>updateMemberRole\<close>
  fail and leave the store unchanged. The error is BadRequest when the actor passes
  the method's permission gate (the owner or a project admin for \<open>removeMember\<close>, the
  owner for \<open>updateMemberRole\<close>) and Forbidden otherwise.
\<close>

theorem owner_protection:
  assumes "Project_findById projectId d = Some P"
  shows "removeMember accepted now projectId (p_owner P) actorId d =
           (Inl (if actorId = p_owner P \<or> getMemberRole P actorId = Some RAdmin
                 then badRequest ''Cannot remove the project owner''
                 else forbidden ''Only project owner or admins can remove members''), d)
       \<and> updateMemberRole accepted now projectId (p_owner P) newRole actorId d =
           (Inl (if actorId = p_owner P
                 then badRequest ''Cannot change the project owner's role''
                 else forbidden ''Only the project owner can change member roles''), d)"
  using assms by (auto simp: removeMember_def updateMemberRole_def Let_def)

theorem owner_protection_witness:
  "Project_findById ''p1'' exDb0 = Some exProject
   \<and> removeMember True 9 ''p1'' ''u1'' ''u2'' exDb0
       = (Inl (badRequest ''Cannot remove the project owner''), exDb0)
   \<and> updateMemberRole True 9 ''p1'' ''u1'' RViewer ''u1'' exDb0
       = (Inl (badRequest ''Cannot change the project owner's role''), exDb0)
   \<and> removeMember True 9 ''p1'' ''u1'' ''u9'' exDb0
       = (Inl (forbidden ''Only project owner or admins can remove members''), exDb0)"
proof -
  have h: "Project_findById ''p1'' exDb0 = Some exProject"
    by (simp add: Project_findById_def exDb0_def exProject_def)
  have o: "p_owner exProject = ''u1''"
    by (simp add: exProject_def)
  have r: "getMemberRole exProject ''u2'' = Some RAdmin" "getMemberRole exProject ''u9'' = None"
    by (simp_all add: getMemberRole_def exProject_def)
  show ?thesis
    using h owner_protection [OF h, where accepted = True and now = 9 and actorId = "''u2''"
                                     and newRole = RViewer]
          owner_protection [OF h, where accepted = True and now = 9 and actorId = "''u1''"
                                     and newRole = RViewer]
          owner_protection [OF h, where accepted = True and now = 9 and actorId = "''u9''"
                                     and newRole = RViewer]
    by (simp add: o r)
qed

section \<open>Completion tracking\<close>

text \<open>
  What the pre-save hook does when it runs: a modified status that is now \<open>done\<close>
  gives a task without completion time the current time, a modified status that is
  not \<open>done\<close> resets the completion time, and a \<open>done\<close> task keeps the completion
  time it has.
\<close>

lemma preSave_completedAt:
  "(statusModified \<and> t_status tsk = Done \<and> t_completedAt tsk = None
      \<longrightarrow> t_completedAt (fst (preSave now isNew statusModified tsk d)) = Some now)
   \<and> (statusModified \<and> t_status tsk \<noteq> Done
      \<longrightarrow> t_completedAt (fst (preSave now isNew statusModified tsk d)) = None)
   \<and> (t_status tsk = Done \<and> t_completedAt tsk \<noteq> None
      \<longrightarrow> t_completedAt (fst (preSave now isNew statusModified tsk d)) = t_completedAt tsk)"
  by (auto simp: preSave_def generateTaskNumber_def trackCompletion_def Let_def
           split: option.splits prod.splits)

text \<open>
  The hook is registered for \<^verbatim>\<open>save\<close>, and the only save of a task is its creation.
  The status of a stored task changes through \<open>updateTask\<close>, whose write is
  \<^verbatim>\<open>findByIdAndUpdate\<close>: no task update ever changes a completion time.
\<close>

lemma map_updateFirst:
  "(\<And>x. g (f x) = g x) \<Longrightarrow> map g (updateFirst P f xs) = map g xs"
  by (induction xs) auto

lemma updateTask_keeps_completedAt:
  "map t_completedAt (tasks (snd (updateTask accepted now taskId u uid d)))
     = map t_completedAt (tasks d)"
proof -
  have m: "map t_completedAt (updateFirst (\<lambda>t. t_id t = taskId) (applyTaskPatch now u) (tasks d))
             = map t_completedAt (tasks d)"
    by (rule map_updateFirst) (simp add: applyTaskPatch_def)
  show ?thesis
    using m
    by (cases accepted)
       (auto simp: updateTask_def Task_updateById_def logAndReturn_def Activity_log_def
             split: option.splits prod.splits sum.splits)
qed

text \<open>
  Claim C8 at a failing input. Task \<open>t1\<close> is in status \<open>todo\<close> with no completion
  time, and task \<open>t4\<close> was created in status \<open>done\<close>, so the hook gave it the
  completion time 5. Moving \<open>t1\<close> to \<open>done\<close> with \<open>updateTask\<close> succeeds and leaves
  its completion time null, where the claim requires a timestamp; moving \<open>t4\<close> from
  \<open>done\<close> to \<open>todo\<close> succeeds and leaves its completion time 5, where the claim
  requires null.
\<close>

theorem completedAt_not_tracked_on_update:
  "map (\<lambda>t. (t_id t, t_status t, t_completedAt t)) (tasks exDbDone)
     = [(''t1'', Todo, None), (''t2'', Todo, None), (''t3'', Todo, None),
        (''t4'', Done, Some 5)]
   \<and> succeeds (fst (updateTask True 9 ''t1'' (exPatch\<lparr>up_status := Some Done\<rparr>) ''u1'' exDbDone))
   \<and> map (\<lambda>t. (t_id t, t_status t, t_completedAt t))
       (tasks (snd (updateTask True 9 ''t1'' (exPatch\<lparr>up_status := Some Done\<rparr>) ''u1''
                      exDbDone)))
     = [(''t1'', Done, None), (''t2'', Todo, None), (''t3'', Todo, None),
        (''t4'', Done, Some 5)]
   \<and> succeeds (fst (updateTask True 9 ''t4'' (exPatch\<lparr>up_status := Some Todo\<rparr>) ''u1'' exDbDone))
   \<and> map (\<lambda>t. (t_id t, t_status t, t_completedAt t))
       (tasks (snd (updateTask True 9 ''t4'' (exPatch\<lparr>up_status := Some Todo\<rparr>) ''u1''
                      exDbDone)))
     = [(''t1'', Todo, None), (''t2'', Todo, None), (''t3'', Todo, None),
        (''t4'', Todo, Some 5)]"
  unfolding ex_defs by code_simp

section \<open>Last-admin guard\<close>

text \<open>
  Claim C5, as stated: with exactly one active admin, demoting or deactivating that
  admin is rejected with a Conflict error. Both methods raise
  \<^verbatim>\<open>ApiError.badRequest\<close>: the status code is 400, not 409. In the example store
  \<open>u1\<close> is the only active admin.
\<close>

theorem last_admin_conflict_counterexample:
  "countByRole exDb0 SAdmin = Some 1
   \<and> updateRole True ''u1'' SMember ''u1'' exDb0
       = (Inl (ApiError 400 ''Cannot demote the last admin user''), exDb0)
   \<and> deactivateUser True ''u1'' ''u1'' exDb0
       = (Inl (ApiError 400 ''Cannot deactivate the last admin user''), exDb0)
   \<and> fst (updateRole True ''u1'' SMember ''u1'' exDb0)
       \<noteq> Inl (conflict ''Cannot demote the last admin user'')
   \<and> fst (deactivateUser True ''u1'' ''u1'' exDb0)
       \<noteq> Inl (conflict ''Cannot deactivate the last admin user'')"
  unfolding ex_defs by code_simp

text \<open>
  Claim C5, amended: in a system with exactly one active admin, any attempt to demote
  that admin to a non-admin role or to deactivate them is rejected with a BadRequest
  error and the store is left unchanged; with two or more active admins, demoting one
  of them is accepted and one active admin fewer remains, so at least one does.
\<close>

theorem last_admin_guard:
  assumes found: "User_findById userId d = Some usr"
      and admin: "u_role usr = SAdmin" and active: "u_isActive usr"
      and cnt: "countByRole d SAdmin = Some n"
      and demote: "newRole \<noteq> SAdmin"
  shows "(n = 1 \<longrightarrow> updateRole accepted userId newRole actorId d
                     = (Inl (badRequest ''Cannot demote the last admin user''), d)
                 \<and> deactivateUser accepted userId actorId d
                     = (Inl (badRequest ''Cannot deactivate the last admin user''), d))
       \<and> (2 \<le> n \<longrightarrow> fst (updateRole True userId newRole actorId d)
                       = Inr (usr\<lparr>u_role := newRole\<rparr>)
                 \<and> countByRole (snd (updateRole accepted userId newRole actorId d)) SAdmin
                       = Some (n - 1))"
proof (intro conjI impI)
  assume "n = 1"
  then show "updateRole accepted userId newRole actorId d
               = (Inl (badRequest ''Cannot demote the last admin user''), d)"
    using found admin cnt demote by (simp add: updateRole_def)
next
  assume "n = 1"
  then show "deactivateUser accepted userId actorId d
               = (Inl (badRequest ''Cannot deactivate the last admin user''), d)"
    using found admin cnt by (simp add: deactivateUser_def)
next
  assume n: "2 \<le> n"
  have "find (\<lambda>u. u_id u = userId)
          (updateFirst (\<lambda>u. u_id u = userId) (\<lambda>u. u\<lparr>u_role := newRole\<rparr>) (users d))
          = Some (usr\<lparr>u_role := newRole\<rparr>)"
    using found by (simp add: find_updateFirst User_findById_def)
  then show "fst (updateRole True userId newRole actorId d) = Inr (usr\<lparr>u_role := newRole\<rparr>)"
    using found admin cnt demote n
    by (simp add: updateRole_def Let_def User_updateById_def User_findById_def
                  logAndReturn_True)
next
  assume n: "2 \<le> n"
  let ?Q = "\<lambda>u. u_isActive u \<and> u_role u = SAdmin"
  let ?us = "updateFirst (\<lambda>u. u_id u = userId) (\<lambda>u. u\<lparr>u_role := newRole\<rparr>) (users d)"
  have len: "length (filter ?Q (users d)) = n"
    using cnt by (simp add: countByRole_Some)
  have "Suc (length (filter ?Q ?us)) = length (filter ?Q (users d))"
    using found admin active demote
    by (intro count_updateFirst [where x = usr]) (simp_all add: User_findById_def)
  then have len': "length (filter ?Q ?us) = n - 1"
    using len by simp
  have snd_eq: "users (snd (updateRole accepted userId newRole actorId d)) = ?us"
    using found admin cnt demote n
    by (cases accepted)
       (simp_all add: updateRole_def Let_def User_updateById_def logAndReturn_snd
                      logAndReturn_False)
  show "countByRole (snd (updateRole accepted userId newRole actorId d)) SAdmin = Some (n - 1)"
    using len' n by (simp add: countByRole_Some snd_eq)
qed

theorem last_admin_guard_witness:
  "User_findById ''u1'' exDb0 = Some (exUser ''u1'' ''ann'' SAdmin True)
   \<and> countByRole exDb0 SAdmin = Some 1
   \<and> updateRole True ''u1'' SViewer ''u1'' exDb0
       = (Inl (badRequest ''Cannot demote the last admin user''), exDb0)
   \<and> deactivateUser True ''u1'' ''u1'' exDb0
       = (Inl (badRequest ''Cannot deactivate the last admin user''), exDb0)
   \<and> User_findById ''u4'' exDbTwoAdmins = Some (exUser ''u4'' ''dan'' SAdmin True)
   \<and> countByRole exDbTwoAdmins SAdmin = Some 2
   \<and> fst (updateRole True ''u4'' SMember ''u1'' exDbTwoAdmins)
       = Inr (exUser ''u4'' ''dan'' SMember True)
   \<and> countByRole (snd (updateRole True ''u4'' SMember ''u1'' exDbTwoAdmins)) SAdmin = Some 1"
proof -
  have f1: "User_findById ''u1'' exDb0 = Some (exUser ''u1'' ''ann'' SAdmin True)"
    unfolding ex_defs by code_simp
  have c1: "countByRole exDb0 SAdmin = Some 1"
    unfolding ex_defs by code_simp
  have f2: "User_findById ''u4'' exDbTwoAdmins = Some (exUser ''u4'' ''dan'' SAdmin True)"
    unfolding ex_defs by code_simp
  have c2: "countByRole exDbTwoAdmins SAdmin = Some 2"
    unfolding ex_defs by code_simp
  have r: "u_role (exUser ''u1'' ''ann'' SAdmin True) = SAdmin"
          "u_isActive (exUser ''u1'' ''ann'' SAdmin True)"
          "u_role (exUser ''u4'' ''dan'' SAdmin True) = SAdmin"
          "u_isActive (exUser ''u4'' ''dan'' SAdmin True)"
          "(exUser ''u4'' ''dan'' SAdmin True)\<lparr>u_role := SMember\<rparr> = exUser ''u4'' ''dan'' SMember True"
    by (simp_all add: exUser_def)
  have "SViewer \<noteq> SAdmin" and "SMember \<noteq> SAdmin"
    by simp_all
  then show ?thesis
    using last_admin_guard [OF f1 r(1) r(2) c1, of SViewer True "''u1''"]
          last_admin_guard [OF f2 r(3) r(4) c2, of SMember True "''u1''"]
          f1 c1 f2 c2
    by (simp add: r(5))
qed

section \<open>Action tag of a task update\<close>







section \<open>Audit append and the primary mutation\<close>

lemma succeeds_Inr: "succeeds x \<Longrightarrow> \<exists>r. x = Inr r"
  by (cases x) auto

lemma updateTask_audit:
  assumes "fst (updateTask True now taskId u uid d) = Inr r"
  shows "fst (updateTask False now taskId u uid d) = Inl StoreError
       \<and> snd (updateTask False now taskId u uid d)
           = (snd (updateTask True now taskId u uid d))\<lparr>activities := activities d\<rparr>"
  using assms
  by (auto simp: updateTask_def Let_def logAndReturn_False logAndReturn_snd Task_updateById_def
                 notFound_def
           split: option.splits prod.splits sum.splits)

lemma updateProject_audit:
  assumes "fst (updateProject True now pid u uid d) = Inr r"
  shows "fst (updateProject False now pid u uid d) = Inl StoreError
       \<and> snd (updateProject False now pid u uid d)
           = (snd (updateProject True now pid u uid d))\<lparr>activities := activities d\<rparr>"
  using assms
  by (auto simp: updateProject_def Let_def logAndReturn_False logAndReturn_snd
                 Project_updateById_def notFound_def forbidden_def
           split: option.splits prod.splits if_splits)

lemma updateRole_audit:
  assumes "fst (updateRole True userId newRole uid d) = Inr r"
  shows "fst (updateRole False userId newRole uid d) = Inl StoreError
       \<and> snd (updateRole False userId newRole uid d)
           = (snd (updateRole True userId newRole uid d))\<lparr>activities := activities d\<rparr>"
  using assms
  by (auto simp: updateRole_def Let_def logAndReturn_False logAndReturn_snd User_updateById_def
                 notFound_def badRequest_def
           split: option.splits prod.splits if_splits)

text \<open>
  Claim C2, as stated: when the primary mutation commits and the Activity append
  fails, the operation still succeeds for the caller. The services \<^verbatim>\<open>await\<close> the
  append with no handler around it: when the store rejects the append, the update of
  task \<open>t1\<close> by the project owner ends in the store's error, although the new status
  has been written.
\<close>

theorem audit_failure_counterexample:
  "fst (updateTask False 9 ''t1'' (exPatch\<lparr>up_status := Some Done\<rparr>) ''u1'' exDb3)
     = Inl StoreError
   \<and> \<not> succeeds (fst (updateTask False 9 ''t1'' (exPatch\<lparr>up_status := Some Done\<rparr>) ''u1'' exDb3))
   \<and> map t_status (tasks exDb3) = [Todo, Todo, Todo]
   \<and> map t_status
       (tasks (snd (updateTask False 9 ''t1'' (exPatch\<lparr>up_status := Some Done\<rparr>) ''u1'' exDb3)))
     = [Done, Todo, Todo]"
  unfolding ex_defs by code_simp

text \<open>
  Claim C2, amended: the audit append comes after the primary mutation and is awaited.
  For a task update, a project update and a user role change that would succeed with
  a working audit log: if the Activity append fails, the operation fails for the
  caller with the append's error, and the primary mutation is not rolled back (the
  store is the one of the successful run without the audit entry).
\<close>

theorem audit_failure_propagates:
  "(succeeds (fst (updateTask True now taskId tu uid d))
      \<longrightarrow> fst (updateTask False now taskId tu uid d) = Inl StoreError
        \<and> snd (updateTask False now taskId tu uid d)
            = (snd (updateTask True now taskId tu uid d))\<lparr>activities := activities d\<rparr>)
   \<and> (succeeds (fst (updateProject True now projectId pu uid d))
      \<longrightarrow> fst (updateProject False now projectId pu uid d) = Inl StoreError
        \<and> snd (updateProject False now projectId pu uid d)
            = (snd (updateProject True now projectId pu uid d))\<lparr>activities := activities d\<rparr>)
   \<and> (succeeds (fst (updateRole True userId newRole uid d))
      \<longrightarrow> fst (updateRole False userId newRole uid d) = Inl StoreError
        \<and> snd (updateRole False userId newRole uid d)
            = (snd (updateRole True userId newRole uid d))\<lparr>activities := activities d\<rparr>)"
proof (intro conjI impI)
  assume "succeeds (fst (updateTask True now taskId tu uid d))"
  then obtain r where r: "fst (updateTask True now taskId tu uid d) = Inr r"
    using succeeds_Inr by blast
  show "fst (updateTask False now taskId tu uid d) = Inl StoreError"
    using updateTask_audit [OF r] by simp
  show "snd (updateTask False now taskId tu uid d)
            = (snd (updateTask True now taskId tu uid d))\<lparr>activities := activities d\<rparr>"
    using updateTask_audit [OF r] by simp
next
  assume "succeeds (fst (updateProject True now projectId pu uid d))"
  then obtain r where r: "fst (updateProject True now projectId pu uid d) = Inr r"
    using succeeds_Inr by blast
  show "fst (updateProject False now projectId pu uid d) = Inl StoreError"
    using updateProject_audit [OF r] by simp
  show "snd (updateProject False now projectId pu uid d)
            = (snd (updateProject True now projectId pu uid d))\<lparr>activities := activities d\<rparr>"
    using updateProject_audit [OF r] by simp
next
  assume "succeeds (fst (updateRole True userId newRole uid d))"
  then obtain r where r: "fst (updateRole True userId newRole uid d) = Inr r"
    using succeeds_Inr by blast
  show "fst (updateRole False userId newRole uid d) = Inl StoreError"
    using updateRole_audit [OF r] by simp
  show "snd (updateRole False userId newRole uid d)
            = (snd (updateRole True userId newRole uid d))\<lparr>activities := activities d\<rparr>"
    using updateRole_audit [OF r] by simp
qed

theorem audit_failure_propagates_witness:
  "succeeds (fst (updateTask True 9 ''t1'' (exPatch\<lparr>up_status := Some Done\<rparr>) ''u1'' exDb3))
   \<and> fst (updateTask False 9 ''t1'' (exPatch\<lparr>up_status := Some Done\<rparr>) ''u1'' exDb3)
       = Inl StoreError
   \<and> succeeds (fst (updateProject True 9 ''p1''
        \<lparr>pp_name = Some ''Beta'', pp_description = None, pp_status = None,
         pp_visibility = None\<rparr> ''u1'' exDb3))
   \<and> fst (updateProject False 9 ''p1''
        \<lparr>pp_name = Some ''Beta'', pp_description = None, pp_status = None,
         pp_visibility = None\<rparr> ''u1'' exDb3) = Inl StoreError
   \<and> succeeds (fst (updateRole True ''u2'' SViewer ''u1'' exDb3))
   \<and> fst (updateRole False ''u2'' SViewer ''u1'' exDb3) = Inl StoreError"
proof -
  have h1: "succeeds (fst (updateTask True 9 ''t1'' (exPatch\<lparr>up_status := Some Done\<rparr>)
                        ''u1'' exDb3))"
    unfolding ex_defs by code_simp
  have h2: "succeeds (fst (updateProject True 9 ''p1''
        \<lparr>pp_name = Some ''Beta'', pp_description = None, pp_status = None,
         pp_visibility = None\<rparr> ''u1'' exDb3))"
    unfolding ex_defs by code_simp
  have h3: "succeeds (fst (updateRole True ''u2'' SViewer ''u1'' exDb3))"
    unfolding ex_defs by code_simp
  show ?thesis
    using h1 h2 h3
          audit_failure_propagates [of 9 "''t1''" "exPatch\<lparr>up_status := Some Done\<rparr>" "''u1''"
            exDb3 "''p1''"
            "\<lparr>pp_name = Some ''Beta'', pp_description = None, pp_status = None,
              pp_visibility = None\<rparr>" "''u2''" SViewer]
    by blast
qed

section \<open>Task numbering\<close>

text \<open>
  The number the hook gives to a new task depends only on how many tasks of the
  project are stored at that moment.
\<close>

lemma generateTaskNumber_counts:
  assumes "Project_findById (t_project this) d = Some P" and "\<not> truthy (t_taskNumber this)"
  shows "t_taskNumber (fst (generateTaskNumber now True this d))
           = Some (p_key P @ ''-'' @ showNat (countDocuments (t_project this) d + 1))"
  using assms by (simp add: generateTaskNumber_def Let_def)

text \<open>
  Claim C1 at a failing input. In the fresh project with key \<^verbatim>\<open>ABC\<close>, three tasks
  created one after the other get the numbers ABC-1, ABC-2 and ABC-3. After ABC-2 is
  deleted, two tasks remain, so the hook numbers the next task ABC-3, a number that
  is assigned already and still held by a stored task, where the claim requires
  ABC-4; the unique index on \<open>taskNumber\<close> then refuses the insert and the creation
  fails.
\<close>

theorem taskNumber_reused_after_delete:
  "map t_taskNumber (tasks exDb3) = [Some ''ABC-1'', Some ''ABC-2'', Some ''ABC-3'']
   \<and> map t_taskNumber (tasks exDb4) = [Some ''ABC-1'', Some ''ABC-3'']
   \<and> t_taskNumber (fst (preSave 5 True False
         (exTask\<lparr>t_id := ''t4'', t_title := ''Next'', t_taskNumber := None,
                 t_updatedAt := 5\<rparr>) exDb4))
       = Some ''ABC-3''
   \<and> fst (createTask True 5 ''t4'' False (exTaskData ''Next'') ''u1'' exDb4)
       = Inl DuplicateKeyError"
  unfolding ex_defs exTask_def by code_simp

section \<open>Authorization of task operations\<close>

text \<open>
  The acting user enters a task update, a task deletion and a task read only as the
  actor recorded in the audit entry: the outcome and the stored tasks are the same
  for any two users.
\<close>

lemma updateTask_any_actor:
  "fst (updateTask accepted now taskId u uid1 d) = fst (updateTask accepted now taskId u uid2 d)
   \<and> tasks (snd (updateTask accepted now taskId u uid1 d))
       = tasks (snd (updateTask accepted now taskId u uid2 d))"
  by (cases accepted)
     (auto simp: updateTask_def Let_def logAndReturn_def Activity_log_def
           split: option.splits prod.splits sum.splits)

lemma deleteTask_any_actor:
  "fst (deleteTask accepted now taskId uid1 d) = fst (deleteTask accepted now taskId uid2 d)
   \<and> tasks (snd (deleteTask accepted now taskId uid1 d))
       = tasks (snd (deleteTask accepted now taskId uid2 d))"
  by (cases accepted)
     (auto simp: deleteTask_def Let_def logAndReturn_def Activity_log_def
           split: option.splits prod.splits)

lemma getTaskById_any_actor: "getTaskById taskId uid1 d = getTaskById taskId uid2 d"
  by (simp add: getTaskById_def)

text \<open>
  Claim C4 at a failing input. User \<open>u9\<close> is neither the owner nor a member of the
  private project \<open>p1\<close>, so \<open>u9\<close> has no resolved role there. Creating a task in
  \<open>p1\<close> is denied to \<open>u9\<close>, and the route refuses a system viewer; but \<open>u9\<close>
  updates a task of \<open>p1\<close>, deletes it and reads it without any denial.
\<close>

theorem task_mutation_without_role:
  "getMemberRole exProject ''u9'' = None \<and> p_visibility exProject = Private
   \<and> map t_project (tasks exDb3) = [''p1'', ''p1'', ''p1'']
   \<and> fst (createTask True 9 ''t4'' False (exTaskData ''Next'') ''u9'' exDb3)
       = Inl (forbidden ''You do not have access to this project'')
   \<and> authorizeMinRole SMember SViewer
       = Some (forbidden ''Access denied. Minimum required role: member'')
   \<and> map_sum id t_status
       (fst (updateTask True 9 ''t1'' (exPatch\<lparr>up_status := Some Done\<rparr>) ''u9'' exDb3))
       = Inr Done
   \<and> map t_status
       (tasks (snd (updateTask True 9 ''t1'' (exPatch\<lparr>up_status := Some Done\<rparr>) ''u9'' exDb3)))
       = [Done, Todo, Todo]
   \<and> fst (deleteTask True 9 ''t1'' ''u9'' exDb3) = Inr ()
   \<and> map t_id (tasks (snd (deleteTask True 9 ''t1'' ''u9'' exDb3))) = [''t2'', ''t3'']
   \<and> map_sum id t_id (getTaskById ''t1'' ''u9'' exDb3) = Inr ''t1''"
  unfolding ex_defs by code_simp

section \<open>Global search\<close>

lemma tasks_exDb3:
  "tasks exDb3 =
     [exTask,
      exTask\<lparr>t_id := ''t2'', t_title := ''Write docs'', t_taskNumber := Some ''ABC-2'',
             t_updatedAt := 2\<rparr>,
      exTask\<lparr>t_id := ''t3'', t_title := ''c+d'', t_taskNumber := Some ''ABC-3'',
             t_updatedAt := 3\<rparr>]"
  unfolding ex_defs exTask_def by code_simp

lemma limitDocs_all: "length xs \<le> n \<Longrightarrow> limitDocs n xs = xs"
  by (simp add: limitDocs_def)

lemma searchTasks_complete:
  assumes "t \<in> set (tasks d)"
      and "r (t_title t) \<or> r (t_description t) \<or> testOpt r (t_taskNumber t)"
      and "length (tasks d) \<le> lim"
  shows "t \<in> set (searchTasks r lim d)"
proof -
  let ?hits = "filter (\<lambda>t. r (t_title t) \<or> r (t_description t) \<or> testOpt r (t_taskNumber t))
                 (tasks d)"
  have "length (sort_key (\<lambda>t. - int (t_updatedAt t)) ?hits) \<le> lim"
    using assms(3) le_trans [OF length_filter_le] by simp
  then have "searchTasks r lim d = sort_key (\<lambda>t. - int (t_updatedAt t)) ?hits"
    by (simp add: searchTasks_def limitDocs_all)
  moreover have "t \<in> set ?hits"
    using assms(1,2) by simp
  ultimately show ?thesis by simp
qed

text \<open>
  Claim C9: with scope \<open>tasks\<close>, the outcome of the global search is the same for any
  two users issuing the same query, because the task branch applies no visibility or
  membership filter; and every stored task that the query matches is returned when
  the limit does not cut the result, whatever the project it belongs to and whoever
  searches.
\<close>

theorem task_search_ignores_user:
  assumes "so_scope opts = Some ''tasks''"
  shows "globalSearch RegExp_i query opts u1 d = globalSearch RegExp_i query opts u2 d
       \<and> (t \<in> set (tasks d) \<and> queryMatches RegExp_i query t
            \<and> so_limit opts = Some lim \<and> length (tasks d) \<le> lim
          \<longrightarrow> (\<exists>res ts. globalSearch RegExp_i query opts u1 d = Inr res
                  \<and> sr_tasks (res_results res) = Some ts \<and> t \<in> set ts
                  \<and> sr_projects (res_results res) = None
                  \<and> res_totalCount res = length ts))"
proof (intro conjI impI)
  show "globalSearch RegExp_i query opts u1 d = globalSearch RegExp_i query opts u2 d"
    using assms by (simp add: globalSearch_def Let_def split: sum.splits)
next
  assume h: "t \<in> set (tasks d) \<and> queryMatches RegExp_i query t
               \<and> so_limit opts = Some lim \<and> length (tasks d) \<le> lim"
  then obtain r where r: "RegExp_i query = Inr r"
    and m: "r (t_title t) \<or> r (t_description t) \<or> testOpt r (t_taskNumber t)"
    by (auto simp: queryMatches_def split: sum.splits)
  have "t \<in> set (searchTasks r lim d)"
    using h m by (intro searchTasks_complete) simp_all
  then show "\<exists>res ts. globalSearch RegExp_i query opts u1 d = Inr res
                  \<and> sr_tasks (res_results res) = Some ts \<and> t \<in> set ts
                  \<and> sr_projects (res_results res) = None
                  \<and> res_totalCount res = length ts"
    using assms h r by (simp add: globalSearch_def Let_def)
qed

theorem task_search_ignores_user_witness:
  "so_scope tasksOnly = Some ''tasks''
   \<and> getMemberRole exProject ''u9'' = None \<and> p_visibility exProject = Private
   \<and> t_project exTask = p_id exProject
   \<and> exTask \<in> set (tasks exDb3) \<and> queryMatches RegExp_fragment ''auth'' exTask
   \<and> globalSearch RegExp_fragment ''auth'' tasksOnly ''u9'' exDb3
       = globalSearch RegExp_fragment ''auth'' tasksOnly ''u1'' exDb3
   \<and> (\<exists>res ts. globalSearch RegExp_fragment ''auth'' tasksOnly ''u9'' exDb3 = Inr res
          \<and> sr_tasks (res_results res) = Some ts \<and> exTask \<in> set ts)"
proof -
  have s: "so_scope tasksOnly = Some ''tasks''" "so_limit tasksOnly = Some 10"
    by (simp_all add: tasksOnly_def)
  have a: "getMemberRole exProject ''u9'' = None" "p_visibility exProject = Private"
          "t_project exTask = p_id exProject"
    unfolding ex_defs exTask_def by code_simp+
  have t: "exTask \<in> set (tasks exDb3)" "length (tasks exDb3) \<le> 10"
    by (simp_all add: tasks_exDb3)
  have q: "queryMatches RegExp_fragment ''auth'' exTask"
    unfolding exTask_def by code_simp
  show ?thesis
    using s a t q
          task_search_ignores_user [OF s(1), of RegExp_fragment "''auth''" "''u9''" exDb3
                                              "''u1''" exTask 10]
    by blast
qed

text \<open>
  The project branch, by contrast, filters on the searching user: the owner finds the
  private example project, the user without a role in it does not.
\<close>

lemma project_search_depends_on_user:
  "map_sum id (\<lambda>r. map_option (map p_name) (sr_projects (res_results r)))
     (globalSearch RegExp_fragment ''alpha''
        \<lparr>so_scope = Some ''projects'', so_limit = Some 10\<rparr> ''u1'' exDb3)
     = Inr (Some [''Alpha''])
   \<and> map_sum id (\<lambda>r. map_option (map p_name) (sr_projects (res_results r)))
     (globalSearch RegExp_fragment ''alpha''
        \<lparr>so_scope = Some ''projects'', so_limit = Some 10\<rparr> ''u9'' exDb3)
     = Inr (Some [])"
  unfolding ex_defs by code_simp

text \<open>
  Claim C10: the query is handed to the regular-expression engine as it is, so a
  query with metacharacters does not select the entities that contain it literally.
  On the three example tasks (numbered ABC-1 to ABC-3): the query \<^verbatim>\<open>a.c\<close> returns all
  of them, since it matches every task number, though none contains \<^verbatim>\<open>a.c\<close>; the
  query \<^verbatim>\<open>x|y\<close> returns the task whose title contains an \<^verbatim>\<open>x\<close>; and the query
  \<^verbatim>\<open>c+d\<close> misses the task titled \<^verbatim>\<open>c+d\<close>, which literal matching finds.
\<close>

theorem search_query_is_regex:
  "foundTitles (globalSearch RegExp_fragment ''a.c'' tasksOnly ''u1'' exDb3)
     = Some [''c+d'', ''Write docs'', ''Fix auth flow'']
   \<and> foundTitles (globalSearch literalEngine ''a.c'' tasksOnly ''u1'' exDb3) = Some []
   \<and> foundTitles (globalSearch RegExp_fragment ''x|y'' tasksOnly ''u1'' exDb3)
     = Some [''Fix auth flow'']
   \<and> foundTitles (globalSearch literalEngine ''x|y'' tasksOnly ''u1'' exDb3) = Some []
   \<and> foundTitles (globalSearch RegExp_fragment ''c+d'' tasksOnly ''u1'' exDb3) = Some []
   \<and> foundTitles (globalSearch literalEngine ''c+d'' tasksOnly ''u1'' exDb3) = Some [''c+d'']"
  unfolding ex_defs by code_simp

end
